theory Spec2Isabelle
  imports Main "HOL-Library.Word"
begin

unbundle bit_operations_syntax

section \<open>The UEFI loader of uefi/UefiMain.c\<close>

text \<open>
  The loader is one straight-line C program of three functions,
  \<open>get_and_copy_memory_map\<close>, \<open>load_kernel_to_1m\<close> and \<open>UefiMain\<close>. Everything it does
  is a call of a firmware service, so a run is modelled by the list of the calls it makes, in
  order (its trace), together with the status it returns and the values it writes. The
  firmware is an input of the model: a record holding, for each call site of the source, what
  the firmware answers there.
\<close>

subsection \<open>Machine types and status codes\<close>

text \<open>
  The target is X64 (the source says so at its ELF probe), where \<open>UINTN\<close>, pointers and
  \<open>EFI_STATUS\<close> are 64 bits wide. Arithmetic on words wraps around, as C's unsigned
  arithmetic does.
\<close>

type_synonym UINT8 = "8 word"
type_synonym UINT32 = "32 word"
type_synonym UINT64 = "64 word"
type_synonym UINTN = "64 word"
type_synonym EFI_STATUS = "64 word"
type_synonym EFI_HANDLE = "64 word"
type_synonym EFI_PHYSICAL_ADDRESS = "64 word"
type_synonym pointer = "64 word"

definition NULL :: pointer where
  "NULL = 0"

text \<open>
  The status codes and the macro \<open>EFI_ERROR\<close> come from the EDK2 header \<open>Base.h\<close>, which the
  source includes through \<open>Uefi.h\<close>: an error code has the highest bit set, and \<open>EFI_ERROR\<close>
  tests the sign of the status read as a signed integer.
\<close>

definition EFI_SUCCESS :: EFI_STATUS where
  "EFI_SUCCESS = 0"

definition ENCODE_ERROR :: "EFI_STATUS \<Rightarrow> EFI_STATUS" where
  "ENCODE_ERROR c = 0x8000000000000000 OR c"

definition EFI_BUFFER_TOO_SMALL :: EFI_STATUS where
  "EFI_BUFFER_TOO_SMALL = ENCODE_ERROR 5"

definition EFI_DEVICE_ERROR :: EFI_STATUS where
  "EFI_DEVICE_ERROR = ENCODE_ERROR 7"

definition EFI_OUT_OF_RESOURCES :: EFI_STATUS where
  "EFI_OUT_OF_RESOURCES = ENCODE_ERROR 9"

definition EFI_ERROR :: "EFI_STATUS \<Rightarrow> bool" where
  "EFI_ERROR s = (sint s < 0)"

subsection \<open>The handoff record\<close>

record BOOT_INFO =
  memory_map :: pointer
  memory_map_size :: UINTN
  descriptor_size :: UINTN
  descriptor_version :: UINT32
  physical_memory_offset :: UINT64
  kernel_entry_phys :: UINT64

text \<open>
  \<open>sizeof(BOOT_INFO)\<close> on X64: three 8-byte fields, a 4-byte field padded to 8, and two
  8-byte fields.
\<close>

definition sizeof_BOOT_INFO :: UINTN where
  "sizeof_BOOT_INFO = 48"

definition PHYS_OFFSET :: UINT64 where
  "PHYS_OFFSET = 0xFFFF800000000000"

subsection \<open>Firmware calls and traces\<close>

datatype EFI_GUID =
    gEfiLoadedImageProtocolGuid
  | gEfiSimpleFileSystemProtocolGuid
  | gEfiFileInfoGuid

datatype EFI_ALLOCATE_TYPE = AllocateAnyPages | AllocateMaxAddress | AllocateAddress

datatype EFI_MEMORY_TYPE = EfiReservedMemoryType | EfiLoaderCode | EfiLoaderData

text \<open>
  One constructor for each firmware service the source calls, with the arguments the source
  passes. \<open>Print\<close> carries the format string only, without its final newline. \<open>KernelCall\<close>
  is not a firmware service: it is the control transfer \<open>kernel(bi)\<close>, with the address called
  and the one argument passed.
\<close>

datatype event =
    HandleProtocol EFI_HANDLE EFI_GUID
  | OpenVolume
  | OpenFile string UINT64 UINT64
  | GetInfo EFI_GUID UINTN pointer
  | AllocatePool UINTN
  | FreePool pointer
  | CloseFile
  | AllocatePages EFI_ALLOCATE_TYPE EFI_MEMORY_TYPE UINTN EFI_PHYSICAL_ADDRESS
  | ReadFile UINTN pointer
  | GetMemoryMap UINTN pointer
  | ExitBootServices EFI_HANDLE UINTN
  | Print string
  | KernelCall UINT64 pointer

text \<open>What a call of \<open>GetMemoryMap\<close> leaves in the four variables passed by address.\<close>

record map_reply =
  reply_map_size :: UINTN
  reply_map_key :: UINTN
  reply_descriptor_size :: UINTN
  reply_descriptor_version :: UINT32

text \<open>
  The firmware's answers, one field for each call site of the source, in the order of the
  source. A field holds the status returned and the values the call leaves in the variables
  passed by address; the two \<open>AllocatePool\<close> fields hold the pointer returned. \<open>fw_Read\<close>
  holds the status, the value left in \<open>ReadSize\<close> and the bytes the firmware stored at the
  buffer address.
\<close>

record firmware =
  fw_HandleProtocol_LoadedImage :: "EFI_STATUS \<times> EFI_HANDLE"
  fw_HandleProtocol_SimpleFs :: EFI_STATUS
  fw_OpenVolume :: EFI_STATUS
  fw_Open :: EFI_STATUS
  fw_GetInfo_size :: "EFI_STATUS \<times> UINTN"
  fw_AllocatePool_FileInfo :: pointer
  fw_GetInfo :: "EFI_STATUS \<times> UINT64"
  fw_AllocatePages :: EFI_STATUS
  fw_Read :: "EFI_STATUS \<times> UINTN \<times> UINT8 list"
  fw_GetMemoryMap_size :: "EFI_STATUS \<times> map_reply"
  fw_AllocatePool_map :: pointer
  fw_GetMemoryMap :: "EFI_STATUS \<times> map_reply"
  fw_AllocatePool_BOOT_INFO :: pointer
  fw_ExitBootServices :: EFI_STATUS

subsection \<open>Physical memory\<close>

type_synonym memory = "EFI_PHYSICAL_ADDRESS \<Rightarrow> UINT8"

text \<open>The firmware's \<open>Read\<close> stores the bytes at ascending addresses from the buffer address.\<close>

fun store_bytes :: "memory \<Rightarrow> EFI_PHYSICAL_ADDRESS \<Rightarrow> UINT8 list \<Rightarrow> memory" where
  "store_bytes m a [] = m"
| "store_bytes m a (b # bs) = store_bytes (m(a := b)) (a + 1) bs"

text \<open>The value of a list of bytes read as one little-endian unsigned integer.\<close>

fun le_bytes :: "UINT8 list \<Rightarrow> UINT64" where
  "le_bytes [] = 0"
| "le_bytes (b # bs) = ucast b OR push_bit 8 (le_bytes bs)"

text \<open>\<open>*(UINT64* )p\<close> on X64: the eight bytes from \<open>p\<close>, little-endian.\<close>

definition read_UINT64 :: "memory \<Rightarrow> EFI_PHYSICAL_ADDRESS \<Rightarrow> UINT64" where
  "read_UINT64 m p = le_bytes (map (\<lambda>i. m (p + of_nat i)) [0..<8])"

subsection \<open>get_and_copy_memory_map (lines 22 to 57)\<close>

text \<open>The five output parameters, as the function writes them at lines 51 to 55.\<close>

record map_outputs =
  out_map :: pointer
  out_map_size :: UINTN
  out_descriptor_size :: UINTN
  out_descriptor_version :: UINT32
  out_map_key :: UINTN

text \<open>
  The function returns its status, the values written through the five output parameters
  (\<open>None\<close> when it returns without writing them) and the firmware calls it made.
\<close>

definition get_and_copy_memory_map ::
  "firmware \<Rightarrow> EFI_STATUS \<times> map_outputs option \<times> event list" where
  "get_and_copy_memory_map fw =
    (let (Status1, r1) = fw_GetMemoryMap_size fw;
         tr1 = [GetMemoryMap 0 NULL]
     in if Status1 \<noteq> EFI_BUFFER_TOO_SMALL then (Status1, None, tr1)
        else
          let map_size = reply_map_size r1 + reply_descriptor_size r1 * 10;
              map = fw_AllocatePool_map fw;
              tr2 = tr1 @ [AllocatePool map_size]
          in if map = NULL then (EFI_OUT_OF_RESOURCES, None, tr2)
             else
               let (Status2, r2) = fw_GetMemoryMap fw;
                   tr3 = tr2 @ [GetMemoryMap map_size map]
               in if EFI_ERROR Status2 then (Status2, None, tr3 @ [FreePool map])
                  else
                    (EFI_SUCCESS,
                     Some \<lparr>out_map = map,
                           out_map_size = reply_map_size r2,
                           out_descriptor_size = reply_descriptor_size r2,
                           out_descriptor_version = reply_descriptor_version r2,
                           out_map_key = reply_map_key r2\<rparr>,
                     tr3))"

subsection \<open>load_kernel_to_1m (lines 61 to 175)\<close>

definition KernelPath :: string where
  "KernelPath = CHR 0x5C # ''BOOT'' @ CHR 0x5C # ''KERNEL_X.BIN''"

definition EFI_FILE_MODE_READ :: UINT64 where
  "EFI_FILE_MODE_READ = 1"

definition LoadAddr :: EFI_PHYSICAL_ADDRESS where
  "LoadAddr = 0x00100000"

text \<open>
  \<open>AllocatePages\<close> is called with \<open>AllocateAddress\<close>: the firmware allocates at the address
  passed or fails, and leaves \<open>LoadAddr\<close> as it is, so \<open>LoadAddr\<close> is the constant of line 70
  throughout. The casts \<open>(UINTN)kernel_size\<close> change nothing on X64.

  Lines 131 and 132: the number of pages for a file of \<open>kernel_size\<close> bytes.
\<close>

definition Pages :: "UINT64 \<Rightarrow> UINTN" where
  "Pages kernel_size =
    (let p = (kernel_size + 0xFFF) div 0x1000 in if p = 0 then 1 else p)"

text \<open>
  Lines 155 to 167: the entry address and the message printed. \<open>bytes[i]\<close> is the byte of
  memory at \<open>LoadAddr + i\<close>; C's \<open>&&\<close> reads no byte when \<open>kernel_size\<close> is below 64.
\<close>

definition resolve_entry :: "memory \<Rightarrow> UINT64 \<Rightarrow> UINT64 \<times> event" where
  "resolve_entry m kernel_size =
    (let bytes = (\<lambda>i :: nat. m (LoadAddr + of_nat i))
     in if kernel_size \<ge> 0x40 \<and> bytes 0 = 0x7f \<and> bytes 1 = 0x45
             \<and> bytes 2 = 0x4C \<and> bytes 3 = 0x46
        then (read_UINT64 m (LoadAddr + 24), Print ''ELF detected. e_entry = 0x%lx'')
        else (LoadAddr, Print ''Non-ELF kernel file, using load address 0x%lx as entry.''))"

text \<open>
  What the function leaves behind: its status, the values written through \<open>out_entry_phys\<close>
  and \<open>out_file_size\<close> (\<open>None\<close> when not written), the firmware calls made and the memory.
\<close>

record load_result =
  load_status :: EFI_STATUS
  load_entry_phys :: "UINT64 option"
  load_file_size :: "UINT64 option"
  load_trace :: "event list"
  load_memory :: memory

definition load_kernel_to_1m :: "firmware \<Rightarrow> memory \<Rightarrow> EFI_HANDLE \<Rightarrow> load_result" where
  "load_kernel_to_1m fw m ImageHandle =
    (let (Status1, DeviceHandle) = fw_HandleProtocol_LoadedImage fw;
         tr1 = [HandleProtocol ImageHandle gEfiLoadedImageProtocolGuid]
     in if EFI_ERROR Status1 then
          \<lparr>load_status = Status1, load_entry_phys = None, load_file_size = None,
           load_trace = tr1 @ [Print ''HandleProtocol(LoadedImage) failed: %r''],
           load_memory = m\<rparr>
        else
     let Status2 = fw_HandleProtocol_SimpleFs fw;
         tr2 = tr1 @ [HandleProtocol DeviceHandle gEfiSimpleFileSystemProtocolGuid]
     in if EFI_ERROR Status2 then
          \<lparr>load_status = Status2, load_entry_phys = None, load_file_size = None,
           load_trace = tr2 @ [Print ''HandleProtocol(SimpleFileSystem) failed: %r''],
           load_memory = m\<rparr>
        else
     let Status3 = fw_OpenVolume fw;
         tr3 = tr2 @ [OpenVolume]
     in if EFI_ERROR Status3 then
          \<lparr>load_status = Status3, load_entry_phys = None, load_file_size = None,
           load_trace = tr3 @ [Print ''OpenVolume failed: %r''],
           load_memory = m\<rparr>
        else
     let Status4 = fw_Open fw;
         tr4 = tr3 @ [OpenFile KernelPath EFI_FILE_MODE_READ 0]
     in if EFI_ERROR Status4 then
          \<lparr>load_status = Status4, load_entry_phys = None, load_file_size = None,
           load_trace = tr4 @ [Print ''Failed to open %s: %r''],
           load_memory = m\<rparr>
        else
     let (Status5, FileInfoSize) = fw_GetInfo_size fw;
         tr5 = tr4 @ [GetInfo gEfiFileInfoGuid 0 NULL]
     in if Status5 \<noteq> EFI_BUFFER_TOO_SMALL \<and> EFI_ERROR Status5 then
          \<lparr>load_status = Status5, load_entry_phys = None, load_file_size = None,
           load_trace = tr5 @ [Print ''KernelFile->GetInfo(alloc size) failed: %r'', CloseFile],
           load_memory = m\<rparr>
        else
     let FileInfo = fw_AllocatePool_FileInfo fw;
         tr6 = tr5 @ [AllocatePool FileInfoSize]
     in if FileInfo = NULL then
          \<lparr>load_status = EFI_OUT_OF_RESOURCES, load_entry_phys = None, load_file_size = None,
           load_trace = tr6 @ [CloseFile],
           load_memory = m\<rparr>
        else
     let (Status7, FileSize) = fw_GetInfo fw;
         tr7 = tr6 @ [GetInfo gEfiFileInfoGuid FileInfoSize FileInfo]
     in if EFI_ERROR Status7 then
          \<lparr>load_status = Status7, load_entry_phys = None, load_file_size = None,
           load_trace = tr7 @ [Print ''KernelFile->GetInfo failed: %r'', FreePool FileInfo, CloseFile],
           load_memory = m\<rparr>
        else
     let kernel_size = FileSize;
         Status8 = fw_AllocatePages fw;
         tr8 = tr7 @ [AllocatePages AllocateAddress EfiLoaderData (Pages kernel_size) LoadAddr]
     in if EFI_ERROR Status8 then
          \<lparr>load_status = Status8, load_entry_phys = None, load_file_size = Some kernel_size,
           load_trace = tr8 @ [Print ''AllocatePages at 0x00100000 failed: %r'',
                               FreePool FileInfo, CloseFile],
           load_memory = m\<rparr>
        else
     let (Status9, ReadSize, data) = fw_Read fw;
         m' = store_bytes m LoadAddr data;
         tr9 = tr8 @ [ReadFile kernel_size LoadAddr]
     in if EFI_ERROR Status9 \<or> ReadSize \<noteq> kernel_size then
          \<lparr>load_status = EFI_DEVICE_ERROR, load_entry_phys = None,
           load_file_size = Some kernel_size,
           load_trace = tr9 @ [Print ''KernelFile->Read failed or short read: %r (read %u, expected %llu)'',
                               FreePool FileInfo, CloseFile],
           load_memory = m'\<rparr>
        else
     let resolved = resolve_entry m' kernel_size;
         entry = fst resolved
     in \<lparr>load_status = EFI_SUCCESS, load_entry_phys = Some entry,
         load_file_size = Some kernel_size,
         load_trace = tr9 @ [snd resolved, FreePool FileInfo, CloseFile],
         load_memory = m'\<rparr>)"

subsection \<open>UefiMain (lines 177 to 234)\<close>

text \<open>
  A run leaves its status, its trace, the handoff record with the address it was stored at
  (\<open>None\<close> when the run never stored one) and the memory.
\<close>

record run_result =
  run_status :: EFI_STATUS
  run_trace :: "event list"
  run_boot_info :: "(pointer \<times> BOOT_INFO) option"
  run_memory :: memory

text \<open>
  The locals an output parameter points to keep their initial value when the callee returns
  without writing: \<open>kernel_entry_phys = 0\<close>, \<open>mem_map = NULL\<close> and zero for the rest.
\<close>

definition initial_map_outputs :: map_outputs where
  "initial_map_outputs =
    \<lparr>out_map = NULL, out_map_size = 0, out_descriptor_size = 0,
     out_descriptor_version = 0, out_map_key = 0\<rparr>"

definition UefiMain :: "firmware \<Rightarrow> memory \<Rightarrow> EFI_HANDLE \<Rightarrow> run_result" where
  "UefiMain fw m ImageHandle =
    (let l = load_kernel_to_1m fw m ImageHandle;
         kernel_entry_phys = (case load_entry_phys l of None \<Rightarrow> 0 | Some e \<Rightarrow> e);
         m' = load_memory l;
         tr1 = load_trace l
     in if EFI_ERROR (load_status l) then
          \<lparr>run_status = load_status l,
           run_trace = tr1 @ [Print ''Failed to load kernel: %r''],
           run_boot_info = None, run_memory = m'\<rparr>
        else
     let tr2 = tr1 @ [Print ''Kernel loaded. size=%llu entry_phys=0x%lx''];
         (Status2, outs, trm) = get_and_copy_memory_map fw;
         v = (case outs of None \<Rightarrow> initial_map_outputs | Some w \<Rightarrow> w);
         tr3 = tr2 @ trm
     in if EFI_ERROR Status2 then
          \<lparr>run_status = Status2,
           run_trace = tr3 @ [Print ''GetMemoryMap failed: %r''],
           run_boot_info = None, run_memory = m'\<rparr>
        else
     let bi = fw_AllocatePool_BOOT_INFO fw;
         tr4 = tr3 @ [AllocatePool sizeof_BOOT_INFO]
     in if bi = NULL then
          \<lparr>run_status = EFI_OUT_OF_RESOURCES,
           run_trace = tr4 @ [Print ''AllocatePool for BOOT_INFO failed''],
           run_boot_info = None, run_memory = m'\<rparr>
        else
     let info = \<lparr>memory_map = out_map v,
                 memory_map_size = out_map_size v,
                 descriptor_size = out_descriptor_size v,
                 descriptor_version = out_descriptor_version v,
                 physical_memory_offset = PHYS_OFFSET,
                 kernel_entry_phys = kernel_entry_phys\<rparr>;
         Status5 = fw_ExitBootServices fw;
         tr5 = tr4 @ [ExitBootServices ImageHandle (out_map_key v)]
     in if EFI_ERROR Status5 then
          \<lparr>run_status = Status5,
           run_trace = tr5 @ [Print ''ExitBootServices failed: %r''],
           run_boot_info = Some (bi, info), run_memory = m'\<rparr>
        else
          \<lparr>run_status = EFI_SUCCESS,
           run_trace = tr5 @ [KernelCall (BOOT_INFO.kernel_entry_phys info) bi],
           run_boot_info = Some (bi, info), run_memory = m'\<rparr>)"

subsection \<open>Vocabulary for the properties\<close>

text \<open>The four bytes \<open>0x7f 'E' 'L' 'F'\<close> that open an ELF file.\<close>

definition ELF_magic :: "UINT8 list" where
  "ELF_magic = [0x7f, 0x45, 0x4C, 0x46]"

text \<open>Recognisers of the calls the properties speak about.\<close>

fun is_ReadFile :: "event \<Rightarrow> bool" where
  "is_ReadFile (ReadFile n p) = True"
| "is_ReadFile _ = False"

fun is_AllocatePages :: "event \<Rightarrow> bool" where
  "is_AllocatePages (AllocatePages t mt n a) = True"
| "is_AllocatePages _ = False"

fun is_ExitBootServices :: "event \<Rightarrow> bool" where
  "is_ExitBootServices (ExitBootServices h k) = True"
| "is_ExitBootServices _ = False"

fun is_GetMemoryMap :: "event \<Rightarrow> bool" where
  "is_GetMemoryMap (GetMemoryMap n p) = True"
| "is_GetMemoryMap _ = False"

text \<open>
  What a trace holds after its first event recognised by \<open>P\<close>; the empty list when it holds
  no such event.
\<close>

fun events_after :: "(event \<Rightarrow> bool) \<Rightarrow> event list \<Rightarrow> event list" where
  "events_after P [] = []"
| "events_after P (e # es) = (if P e then es else events_after P es)"

text \<open>
  The values of the five locals of \<open>UefiMain\<close> (lines 191 to 195) after the call of
  \<open>get_and_copy_memory_map\<close>.
\<close>

definition snapshot :: "firmware \<Rightarrow> map_outputs" where
  "snapshot fw =
    (case fst (snd (get_and_copy_memory_map fw)) of
       None \<Rightarrow> initial_map_outputs | Some w \<Rightarrow> w)"

subsection \<open>Sample inputs\<close>

text \<open>
  Three kernel files: a flat binary of two bytes, an ELF header of 64 bytes with \<open>e_entry\<close>
  \<open>0x101000\<close>, and a file of 8192 bytes that opens with the ELF magic and has the bytes
  \<open>00 10 00 00 00 00 00 00\<close> at offset 24.
\<close>

definition flat_image :: "UINT8 list" where
  "flat_image = [0xFA, 0xF4]"

definition elf_image :: "UINT8 list" where
  "elf_image = ELF_magic @ replicate 20 0 @ [0x00, 0x10, 0x10, 0, 0, 0, 0, 0] @ replicate 32 0"

definition scenario2_image :: "UINT8 list" where
  "scenario2_image = ELF_magic @ replicate 20 0 @ [0x00, 0x10, 0, 0, 0, 0, 0, 0] @ replicate 8160 0"

text \<open>
  A firmware on which every call succeeds, for a kernel file with the bytes \<open>file\<close>: the size
  probes answer \<open>EFI_BUFFER_TOO_SMALL\<close>, the memory-map probe reports 4096 bytes and a stride
  of 48, and the read stores the whole file.
\<close>

definition good_firmware :: "UINT8 list \<Rightarrow> firmware" where
  "good_firmware file =
    \<lparr>fw_HandleProtocol_LoadedImage = (EFI_SUCCESS, 2),
     fw_HandleProtocol_SimpleFs = EFI_SUCCESS,
     fw_OpenVolume = EFI_SUCCESS,
     fw_Open = EFI_SUCCESS,
     fw_GetInfo_size = (EFI_BUFFER_TOO_SMALL, 104),
     fw_AllocatePool_FileInfo = 0x2000,
     fw_GetInfo = (EFI_SUCCESS, of_nat (length file)),
     fw_AllocatePages = EFI_SUCCESS,
     fw_Read = (EFI_SUCCESS, of_nat (length file), file),
     fw_GetMemoryMap_size =
       (EFI_BUFFER_TOO_SMALL,
        \<lparr>reply_map_size = 4096, reply_map_key = 0,
         reply_descriptor_size = 48, reply_descriptor_version = 1\<rparr>),
     fw_AllocatePool_map = 0x3000,
     fw_GetMemoryMap =
       (EFI_SUCCESS,
        \<lparr>reply_map_size = 4320, reply_map_key = 0x2A,
         reply_descriptor_size = 48, reply_descriptor_version = 1\<rparr>),
     fw_AllocatePool_BOOT_INFO = 0x5000,
     fw_ExitBootServices = EFI_SUCCESS\<rparr>"

text \<open>The same firmware with other answers at one call site each.\<close>

definition probe_succeeds :: firmware where
  "probe_succeeds =
    good_firmware flat_image
      \<lparr>fw_GetMemoryMap_size :=
         (EFI_SUCCESS,
          \<lparr>reply_map_size = 0, reply_map_key = 0,
           reply_descriptor_size = 0, reply_descriptor_version = 0\<rparr>)\<rparr>"

definition probe_reports_huge :: firmware where
  "probe_reports_huge =
    good_firmware flat_image
      \<lparr>fw_GetMemoryMap_size :=
         (EFI_BUFFER_TOO_SMALL,
          \<lparr>reply_map_size = 0xFFFFFFFFFFFFFFFF, reply_map_key = 0,
           reply_descriptor_size = 1, reply_descriptor_version = 1\<rparr>)\<rparr>"

definition short_read :: firmware where
  "short_read = good_firmware flat_image \<lparr>fw_Read := (EFI_SUCCESS, 1, [0xFA])\<rparr>"

definition pages_unavailable :: firmware where
  "pages_unavailable = good_firmware flat_image \<lparr>fw_AllocatePages := EFI_OUT_OF_RESOURCES\<rparr>"

definition map_fetch_fails :: firmware where
  "map_fetch_fails =
    good_firmware flat_image
      \<lparr>fw_GetMemoryMap :=
         (EFI_BUFFER_TOO_SMALL,
          \<lparr>reply_map_size = 4800, reply_map_key = 0,
           reply_descriptor_size = 48, reply_descriptor_version = 1\<rparr>)\<rparr>"

definition zero_memory :: memory where
  "zero_memory = (\<lambda>a. 0)"

section \<open>Auxiliary facts\<close>

subsection \<open>Status codes\<close>

lemma EFI_ERROR_codes:
  "EFI_ERROR EFI_BUFFER_TOO_SMALL" "EFI_ERROR EFI_DEVICE_ERROR"
  "EFI_ERROR EFI_OUT_OF_RESOURCES" "\<not> EFI_ERROR EFI_SUCCESS"
  by (simp_all add: EFI_ERROR_def EFI_BUFFER_TOO_SMALL_def EFI_DEVICE_ERROR_def
      EFI_OUT_OF_RESOURCES_def EFI_SUCCESS_def ENCODE_ERROR_def)

lemmas status_codes =
  EFI_ERROR_def EFI_SUCCESS_def EFI_BUFFER_TOO_SMALL_def EFI_DEVICE_ERROR_def
  EFI_OUT_OF_RESOURCES_def ENCODE_ERROR_def NULL_def

lemmas run_defs =
  UefiMain_def load_kernel_to_1m_def get_and_copy_memory_map_def resolve_entry_def
  good_firmware_def flat_image_def Pages_def LoadAddr_def Let_def sizeof_BOOT_INFO_def
  initial_map_outputs_def PHYS_OFFSET_def

lemma length_flat_image: "length flat_image = 2"
  by (simp add: flat_image_def)

lemma length_elf_image: "length elf_image = 64"
  by (simp add: elf_image_def ELF_magic_def)

lemma length_scenario2_image: "length scenario2_image = 8192"
  by (simp add: scenario2_image_def ELF_magic_def)

subsection \<open>Reading back what a read stored\<close>

text \<open>
  A buffer of at most \<open>2 ^ 64\<close> bytes does not wrap around onto itself, so byte \<open>i\<close> of the
  buffer is found at the buffer address plus \<open>i\<close>.
\<close>

lemma store_bytes_other:
  "(\<And>j. j < length bs \<Longrightarrow> x \<noteq> a + of_nat j) \<Longrightarrow> store_bytes m a bs x = m x"
proof (induction bs arbitrary: m a)
  case Nil
  then show ?case by simp
next
  case (Cons b bs)
  have "x \<noteq> a" using Cons.prems [of 0] by simp
  moreover have "store_bytes (m(a := b)) (a + 1) bs x = (m(a := b)) x"
  proof (rule Cons.IH)
    fix j assume "j < length bs"
    then show "x \<noteq> a + 1 + of_nat j"
      using Cons.prems [of "Suc j"] by (simp add: add.assoc)
  qed
  ultimately show ?case by simp
qed

lemma store_bytes_nth:
  "i < length bs \<Longrightarrow> length bs \<le> 2 ^ 64 \<Longrightarrow> store_bytes m a bs (a + of_nat i) = bs ! i"
proof (induction bs arbitrary: m a i)
  case Nil
  then show ?case by simp
next
  case (Cons b bs)
  show ?case
  proof (cases i)
    case 0
    have "store_bytes (m(a := b)) (a + 1) bs a = (m(a := b)) a"
    proof (rule store_bytes_other)
      fix j assume j: "j < length bs"
      then have "Suc j < 2 ^ 64" using Cons.prems(2) by simp
      then have "(of_nat (Suc j) :: 64 word) \<noteq> 0"
        by (intro of_nat_neq_0) simp_all
      then show "a \<noteq> a + 1 + of_nat j" by (simp add: add.assoc)
    qed
    then show ?thesis using 0 by simp
  next
    case (Suc k)
    then have "store_bytes (m(a := b)) (a + 1) bs (a + 1 + of_nat k) = bs ! k"
      using Cons.prems by (intro Cons.IH) simp_all
    then show ?thesis using Suc by (simp add: add.assoc)
  qed
qed

lemma take4_iff:
  "4 \<le> length bs \<Longrightarrow> (take 4 bs = [a, b, c, d]) = (bs ! 0 = a \<and> bs ! 1 = b \<and> bs ! 2 = c \<and> bs ! 3 = d)"
  by (cases bs; cases "tl bs"; cases "tl (tl bs)"; cases "tl (tl (tl bs))") auto

lemma read_UINT64_store_bytes:
  assumes "k + 8 \<le> length bs" and "length bs \<le> 2 ^ 64"
  shows "read_UINT64 (store_bytes m a bs) (a + of_nat k) = le_bytes (take 8 (drop k bs))"
proof -
  have "map (\<lambda>i. store_bytes m a bs (a + of_nat k + of_nat i)) [0..<8] = take 8 (drop k bs)"
  proof (rule nth_equalityI)
    show "length (map (\<lambda>i. store_bytes m a bs (a + of_nat k + of_nat i)) [0..<8]) = length (take 8 (drop k bs))"
      using assms by simp
  next
    fix i assume "i < length (map (\<lambda>i. store_bytes m a bs (a + of_nat k + of_nat i)) [0..<8])"
    then have i: "i < 8" by simp
    then have "store_bytes m a bs (a + of_nat (k + i)) = bs ! (k + i)"
      using assms by (intro store_bytes_nth) simp_all
    then show "map (\<lambda>i. store_bytes m a bs (a + of_nat k + of_nat i)) [0..<8] ! i = take 8 (drop k bs) ! i"
      using i assms by (simp add: add.assoc)
  qed
  then show ?thesis by (simp add: read_UINT64_def)
qed

lemma resolve_entry_store_bytes:
  assumes "unat n = length buf"
  shows "fst (resolve_entry (store_bytes m LoadAddr buf) n) =
    (if 64 \<le> length buf \<and> take 4 buf = ELF_magic
     then le_bytes (take 8 (drop 24 buf)) else LoadAddr)"
proof (cases "64 \<le> length buf")
  case False
  then have "\<not> 0x40 \<le> n" using assms by (simp add: word_le_nat_alt)
  then show ?thesis using False by (simp add: resolve_entry_def)
next
  case True
  have len: "length buf \<le> 2 ^ 64"
    using unsigned_less [of n, where 'a = nat] assms by simp
  have n: "0x40 \<le> n" using True assms by (simp add: word_le_nat_alt)
  have b: "store_bytes m LoadAddr buf (LoadAddr + of_nat i) = buf ! i" if "i < 4" for i
    using that True len by (intro store_bytes_nth) simp_all
  have r: "read_UINT64 (store_bytes m LoadAddr buf) (LoadAddr + of_nat 24) = le_bytes (take 8 (drop 24 buf))"
    using True len by (intro read_UINT64_store_bytes) simp_all
  have t: "(take 4 buf = ELF_magic) = (buf ! 0 = 0x7f \<and> buf ! 1 = 0x45 \<and> buf ! 2 = 0x4C \<and> buf ! 3 = 0x46)"
    unfolding ELF_magic_def using True by (intro take4_iff) simp
  show ?thesis
    using n True r b [of 0] b [of 1] b [of 2] b [of 3]
    by (simp add: resolve_entry_def t)
qed

subsection \<open>load_kernel_to_1m\<close>

text \<open>The function succeeds on one path only, the one that runs to line 174.\<close>

lemma load_kernel_to_1m_success:
  assumes "\<not> EFI_ERROR (load_status (load_kernel_to_1m fw m h))"
  shows "load_entry_phys (load_kernel_to_1m fw m h) =
           Some (fst (resolve_entry (store_bytes m LoadAddr (snd (snd (fw_Read fw)))) (fst (snd (fw_Read fw)))))"
    and "fst (snd (fw_Read fw)) = snd (fw_GetInfo fw)"
  using assms
  by (auto simp add: load_kernel_to_1m_def Let_def EFI_ERROR_codes split: prod.splits if_splits)

lemma load_entry_of_buffer:
  assumes "\<not> EFI_ERROR (load_status (load_kernel_to_1m fw m h))"
    and "fw_Read fw = (st, n, buf)" and "unat n = length buf"
  shows "load_entry_phys (load_kernel_to_1m fw m h) =
    Some (if 64 \<le> length buf \<and> take 4 buf = ELF_magic
          then le_bytes (take 8 (drop 24 buf)) else LoadAddr)"
  using load_kernel_to_1m_success(1) [OF assms(1)] assms(2,3)
  by (simp add: resolve_entry_store_bytes)

lemma load_status_ok_iff:
  "(\<not> EFI_ERROR (load_status (load_kernel_to_1m fw m h))) =
   (\<not> EFI_ERROR (fst (fw_HandleProtocol_LoadedImage fw)) \<and>
    \<not> EFI_ERROR (fw_HandleProtocol_SimpleFs fw) \<and>
    \<not> EFI_ERROR (fw_OpenVolume fw) \<and>
    \<not> EFI_ERROR (fw_Open fw) \<and>
    (fst (fw_GetInfo_size fw) = EFI_BUFFER_TOO_SMALL \<or> \<not> EFI_ERROR (fst (fw_GetInfo_size fw))) \<and>
    fw_AllocatePool_FileInfo fw \<noteq> NULL \<and>
    \<not> EFI_ERROR (fst (fw_GetInfo fw)) \<and>
    \<not> EFI_ERROR (fw_AllocatePages fw) \<and>
    \<not> EFI_ERROR (fst (fw_Read fw)) \<and>
    fst (snd (fw_Read fw)) = snd (fw_GetInfo fw))"
  by (simp add: load_kernel_to_1m_def Let_def EFI_ERROR_codes split: prod.split)

lemma good_firmware_loads:
  "\<not> EFI_ERROR (load_status (load_kernel_to_1m (good_firmware file) m h))"
  unfolding load_status_ok_iff by (simp add: good_firmware_def status_codes)

subsection \<open>Traces\<close>

lemma events_after_append:
  "events_after P (xs @ ys) =
    (if list_ex P xs then events_after P xs @ ys else events_after P ys)"
  by (induction xs) auto

lemma resolve_entry_message [simp]:
  "\<not> is_AllocatePages (snd (resolve_entry m k))"
  "\<not> is_ReadFile (snd (resolve_entry m k))"
  "\<not> is_ExitBootServices (snd (resolve_entry m k))"
  by (simp_all add: resolve_entry_def)

lemma load_read_failure:
  "list_ex is_ReadFile (load_trace (load_kernel_to_1m fw m h)) \<and>
   (EFI_ERROR (fst (fw_Read fw)) \<or> fst (snd (fw_Read fw)) \<noteq> snd (fw_GetInfo fw)) \<longrightarrow>
   load_status (load_kernel_to_1m fw m h) = EFI_DEVICE_ERROR \<and>
   load_entry_phys (load_kernel_to_1m fw m h) = None \<and>
   events_after is_ReadFile (load_trace (load_kernel_to_1m fw m h)) =
          [Print ''KernelFile->Read failed or short read: %r (read %u, expected %llu)'',
           FreePool (fw_AllocatePool_FileInfo fw), CloseFile]"
  by (simp add: load_kernel_to_1m_def Let_def split: prod.split)

lemma load_AllocatePages_failure:
  "list_ex is_AllocatePages (load_trace (load_kernel_to_1m fw m h)) \<and>
   EFI_ERROR (fw_AllocatePages fw) \<longrightarrow>
   load_status (load_kernel_to_1m fw m h) = fw_AllocatePages fw \<and>
   events_after is_AllocatePages (load_trace (load_kernel_to_1m fw m h)) =
          [Print ''AllocatePages at 0x00100000 failed: %r'',
           FreePool (fw_AllocatePool_FileInfo fw), CloseFile]"
  by (simp add: load_kernel_to_1m_def Let_def split: prod.split)

lemma load_AllocatePages_events:
  "list_all (\<lambda>e. is_AllocatePages e \<longrightarrow>
      e = AllocatePages AllocateAddress EfiLoaderData (Pages (snd (fw_GetInfo fw))) 0x00100000)
     (load_trace (load_kernel_to_1m fw m h))"
  by (simp add: load_kernel_to_1m_def Let_def LoadAddr_def split: prod.split)

lemma load_trace_no_ExitBootServices:
  "\<not> list_ex is_ExitBootServices (load_trace (load_kernel_to_1m fw m h))"
  by (simp add: load_kernel_to_1m_def Let_def split: prod.split)

lemma map_trace_no_ExitBootServices:
  "\<not> list_ex is_ExitBootServices (snd (snd (get_and_copy_memory_map fw)))"
  by (simp add: get_and_copy_memory_map_def Let_def split: prod.split)

lemma map_trace_other:
  "\<not> list_ex is_AllocatePages (snd (snd (get_and_copy_memory_map fw)))"
  "\<not> list_ex is_ReadFile (snd (snd (get_and_copy_memory_map fw)))"
  by (simp_all add: get_and_copy_memory_map_def Let_def split: prod.split)

text \<open>The trace of a run, in terms of the traces of the two callees.\<close>

lemma run_trace_load_failed:
  "EFI_ERROR (load_status (load_kernel_to_1m fw m h)) \<Longrightarrow>
   run_trace (UefiMain fw m h) =
     load_trace (load_kernel_to_1m fw m h) @ [Print ''Failed to load kernel: %r''] \<and>
   run_status (UefiMain fw m h) = load_status (load_kernel_to_1m fw m h) \<and>
   run_boot_info (UefiMain fw m h) = None"
  by (simp add: UefiMain_def Let_def)

lemma run_trace_cases:
  "run_trace (UefiMain fw m h) =
     load_trace (load_kernel_to_1m fw m h) @ [Print ''Failed to load kernel: %r''] \<or>
   (\<exists>rest. run_trace (UefiMain fw m h) =
     load_trace (load_kernel_to_1m fw m h)
     @ [Print ''Kernel loaded. size=%llu entry_phys=0x%lx'']
     @ snd (snd (get_and_copy_memory_map fw)) @ rest \<and>
     \<not> list_ex is_AllocatePages rest \<and> \<not> list_ex is_ReadFile rest)"
  by (cases "get_and_copy_memory_map fw") (simp add: UefiMain_def Let_def)

lemma run_trace_AllocatePages:
  "list_ex is_AllocatePages (run_trace (UefiMain fw m h)) =
   list_ex is_AllocatePages (load_trace (load_kernel_to_1m fw m h))"
  "list_all (\<lambda>e. is_AllocatePages e \<longrightarrow> Q e) (run_trace (UefiMain fw m h)) =
   list_all (\<lambda>e. is_AllocatePages e \<longrightarrow> Q e) (load_trace (load_kernel_to_1m fw m h))"
  using run_trace_cases [of fw m h] map_trace_other(1) [of fw]
  by (auto simp add: list_ex_iff list_all_iff)

lemma run_trace_ReadFile:
  "list_ex is_ReadFile (run_trace (UefiMain fw m h)) =
   list_ex is_ReadFile (load_trace (load_kernel_to_1m fw m h))"
  using run_trace_cases [of fw m h] map_trace_other(2) [of fw]
  by (auto simp add: list_ex_iff)

lemma run_reaches_exit:
  assumes "list_ex is_ExitBootServices (run_trace (UefiMain fw m h))"
  shows "\<not> EFI_ERROR (load_status (load_kernel_to_1m fw m h))"
    and "\<not> EFI_ERROR (fst (get_and_copy_memory_map fw))"
    and "fw_AllocatePool_BOOT_INFO fw \<noteq> NULL"
    and "run_trace (UefiMain fw m h) =
          load_trace (load_kernel_to_1m fw m h)
          @ [Print ''Kernel loaded. size=%llu entry_phys=0x%lx'']
          @ snd (snd (get_and_copy_memory_map fw))
          @ [AllocatePool sizeof_BOOT_INFO, ExitBootServices h (out_map_key (snapshot fw))]
          @ (if EFI_ERROR (fw_ExitBootServices fw) then [Print ''ExitBootServices failed: %r'']
             else [KernelCall (case load_entry_phys (load_kernel_to_1m fw m h) of None \<Rightarrow> 0 | Some e \<Rightarrow> e)
                     (fw_AllocatePool_BOOT_INFO fw)])"
    and "run_boot_info (UefiMain fw m h) =
          Some (fw_AllocatePool_BOOT_INFO fw,
            \<lparr>memory_map = out_map (snapshot fw),
             memory_map_size = out_map_size (snapshot fw),
             descriptor_size = out_descriptor_size (snapshot fw),
             descriptor_version = out_descriptor_version (snapshot fw),
             physical_memory_offset = PHYS_OFFSET,
             kernel_entry_phys =
               (case load_entry_phys (load_kernel_to_1m fw m h) of None \<Rightarrow> 0 | Some e \<Rightarrow> e)\<rparr>)"
    and "run_status (UefiMain fw m h) =
          (if EFI_ERROR (fw_ExitBootServices fw) then fw_ExitBootServices fw else EFI_SUCCESS)"
  using assms load_trace_no_ExitBootServices [of fw m h] map_trace_no_ExitBootServices [of fw]
  by (cases "get_and_copy_memory_map fw"; simp add: UefiMain_def Let_def snapshot_def split: if_splits)+

subsection \<open>The page count\<close>

lemma Pages_unat:
  assumes "unat kernel_size \<le> 2 ^ 64 - 0x1000"
  shows "unat (Pages kernel_size) = max 1 ((unat kernel_size + 0xFFF) div 0x1000)"
proof -
  have a: "unat (kernel_size + 0xFFF) = unat kernel_size + 0xFFF"
    using assms by (simp add: unat_add_lem [THEN iffD1])
  have d: "unat ((kernel_size + 0xFFF) div 0x1000) = (unat kernel_size + 0xFFF) div 0x1000"
    by (simp add: unat_div a)
  show ?thesis
  proof (cases "(kernel_size + 0xFFF) div 0x1000 = 0")
    case True
    then have "(unat kernel_size + 0xFFF) div 0x1000 = 0" using d by simp
    then show ?thesis using True by (simp add: Pages_def)
  next
    case False
    then have "unat ((kernel_size + 0xFFF) div 0x1000) \<noteq> 0" by (simp add: unat_eq_0)
    then show ?thesis using False d by (simp add: Pages_def Let_def)
  qed
qed

section \<open>The claims\<close>

subsection \<open>C1: nothing is allocated between the final memory map and ExitBootServices\<close>

text \<open>
  Claim C1 says that no firmware allocation occurs between the second \<open>GetMemoryMap\<close> call,
  which yields the map key, and \<open>ExitBootServices\<close>. The source says as much at line 190 (the
  map ``must be done just before ExitBootServices''), and then allocates the handoff record at
  line 204, after the map and before the termination call. The run on a firmware where every
  call succeeds shows it: \<open>AllocatePool 48\<close>, which is \<open>AllocatePool(sizeof(BOOT_INFO))\<close>,
  stands between \<open>GetMemoryMap 4576 0x3000\<close> and \<open>ExitBootServices 1 0x2A\<close>.
\<close>

theorem BOOT_INFO_allocation_precedes_exit:
  "run_trace (UefiMain (good_firmware flat_image) zero_memory 1) =
    [HandleProtocol 1 gEfiLoadedImageProtocolGuid,
     HandleProtocol 2 gEfiSimpleFileSystemProtocolGuid,
     OpenVolume,
     OpenFile KernelPath EFI_FILE_MODE_READ 0,
     GetInfo gEfiFileInfoGuid 0 NULL,
     AllocatePool 104,
     GetInfo gEfiFileInfoGuid 104 0x2000,
     AllocatePages AllocateAddress EfiLoaderData 1 0x00100000,
     ReadFile 2 0x00100000,
     Print ''Non-ELF kernel file, using load address 0x%lx as entry.'',
     FreePool 0x2000,
     CloseFile,
     Print ''Kernel loaded. size=%llu entry_phys=0x%lx'',
     GetMemoryMap 0 NULL,
     AllocatePool 4576,
     GetMemoryMap 4576 0x3000,
     AllocatePool 48,
     ExitBootServices 1 0x2A,
     KernelCall 0x00100000 0x5000]"
  by (simp add: run_defs status_codes)

subsection \<open>C2: the resolved entry address\<close>

text \<open>
  Claim C2: when the load succeeds and the read stored the buffer \<open>buf\<close> (of \<open>n\<close> bytes, the
  file's size), the entry address written to \<open>out_entry_phys\<close> is the little-endian value of
  the 8 bytes at offset 24 of \<open>buf\<close> if \<open>buf\<close> has at least 64 bytes and its first four bytes
  are the ELF magic, and the load base \<open>0x00100000\<close> for every other buffer.
\<close>

theorem entry_of_loaded_buffer:
  assumes "\<not> EFI_ERROR (load_status (load_kernel_to_1m fw m h))"
    and "fw_Read fw = (st, n, buf)"
    and "unat n = length buf"
  shows "load_entry_phys (load_kernel_to_1m fw m h) =
    Some (if 64 \<le> length buf \<and> take 4 buf = [0x7f, 0x45, 0x4C, 0x46]
          then le_bytes (take 8 (drop 24 buf)) else 0x00100000)"
  using load_entry_of_buffer [OF assms] by (simp add: ELF_magic_def LoadAddr_def)

text \<open>
  C2 at two inputs: the 64-byte ELF header with \<open>e_entry = 0x101000\<close>, and the two-byte flat
  binary, whose entry is the load base.
\<close>

theorem entry_of_loaded_buffer_witness:
  "\<not> EFI_ERROR (load_status (load_kernel_to_1m (good_firmware elf_image) zero_memory 1)) \<and>
   fw_Read (good_firmware elf_image) = (EFI_SUCCESS, 64, elf_image) \<and>
   unat (64 :: UINTN) = length elf_image \<and>
   load_entry_phys (load_kernel_to_1m (good_firmware elf_image) zero_memory 1) = Some 0x00101000 \<and>
   \<not> EFI_ERROR (load_status (load_kernel_to_1m (good_firmware flat_image) zero_memory 1)) \<and>
   fw_Read (good_firmware flat_image) = (EFI_SUCCESS, 2, flat_image) \<and>
   unat (2 :: UINTN) = length flat_image \<and>
   load_entry_phys (load_kernel_to_1m (good_firmware flat_image) zero_memory 1) = Some 0x00100000"
proof -
  have e: "fw_Read (good_firmware elf_image) = (EFI_SUCCESS, 64, elf_image)"
    and f: "fw_Read (good_firmware flat_image) = (EFI_SUCCESS, 2, flat_image)"
    by (simp_all add: good_firmware_def length_elf_image length_flat_image)
  have le: "unat (64 :: UINTN) = length elf_image" and lf: "unat (2 :: UINTN) = length flat_image"
    by (simp_all add: length_elf_image length_flat_image)
  have "take 4 elf_image = [0x7f, 0x45, 0x4C, 0x46]"
    and "le_bytes (take 8 (drop 24 elf_image)) = 0x00101000"
    by (simp_all add: elf_image_def ELF_magic_def)
  then show ?thesis
    using entry_of_loaded_buffer [OF good_firmware_loads e le, of zero_memory 1]
      entry_of_loaded_buffer [OF good_firmware_loads f lf, of zero_memory 1]
      good_firmware_loads [of elf_image zero_memory 1]
      good_firmware_loads [of flat_image zero_memory 1] e f
    by (simp add: length_elf_image length_flat_image)
qed

subsection \<open>C3: the 8192-byte ELF scenario\<close>

text \<open>
  Claim C3 as stated, that the buffer of 8192 bytes with the ELF magic and the bytes
  \<open>00 10 00 00 00 00 00 00\<close> at offset 24 resolves to the load base plus \<open>0x1000\<close>, fails:
  the load succeeds and the entry written is \<open>0x1000\<close>, not \<open>LoadAddr + 0x1000\<close>.
\<close>

theorem scenario2_entry_is_not_offset:
  "length scenario2_image = 8192 \<and>
   take 4 scenario2_image = [0x7f, 0x45, 0x4C, 0x46] \<and>
   take 8 (drop 24 scenario2_image) = [0x00, 0x10, 0, 0, 0, 0, 0, 0] \<and>
   load_status (load_kernel_to_1m (good_firmware scenario2_image) zero_memory 1) = EFI_SUCCESS \<and>
   load_entry_phys (load_kernel_to_1m (good_firmware scenario2_image) zero_memory 1) = Some 0x1000 \<and>
   load_entry_phys (load_kernel_to_1m (good_firmware scenario2_image) zero_memory 1)
     \<noteq> Some (LoadAddr + 0x1000)"
proof -
  have r: "fw_Read (good_firmware scenario2_image) = (EFI_SUCCESS, 8192, scenario2_image)"
    by (simp add: good_firmware_def length_scenario2_image)
  have l: "unat (8192 :: UINTN) = length scenario2_image"
    by (simp add: length_scenario2_image)
  have t: "take 4 scenario2_image = [0x7f, 0x45, 0x4C, 0x46]"
    and d: "take 8 (drop 24 scenario2_image) = [0x00, 0x10, 0, 0, 0, 0, 0, 0]"
    by (simp_all add: scenario2_image_def ELF_magic_def)
  have s: "load_status (load_kernel_to_1m (good_firmware scenario2_image) zero_memory 1) = EFI_SUCCESS"
    by (simp add: load_kernel_to_1m_def good_firmware_def Let_def status_codes length_scenario2_image)
  show ?thesis
    using load_entry_of_buffer [OF good_firmware_loads r l, of zero_memory 1] t d s
    by (simp add: length_scenario2_image ELF_magic_def LoadAddr_def)
qed

text \<open>
  Claim C3, amended: for every loaded buffer of 8192 bytes that opens with the ELF magic and
  has the bytes \<open>00 10 00 00 00 00 00 00\<close> at offset 24, the resolved entry address is
  \<open>0x1000\<close>, the value of the header field itself (line 163 assigns \<open>raw_entry\<close> to \<open>entry\<close>
  and adds no base).
\<close>

theorem scenario2_entry_is_header_value:
  assumes "\<not> EFI_ERROR (load_status (load_kernel_to_1m fw m h))"
    and "fw_Read fw = (st, n, buf)"
    and "unat n = length buf"
    and "length buf = 8192"
    and "take 4 buf = [0x7f, 0x45, 0x4C, 0x46]"
    and "take 8 (drop 24 buf) = [0x00, 0x10, 0, 0, 0, 0, 0, 0]"
  shows "load_entry_phys (load_kernel_to_1m fw m h) = Some 0x1000"
  using load_entry_of_buffer [OF assms(1,2,3)] assms(4,5,6)
  by (simp add: ELF_magic_def)

text \<open>
  C3 amended, at the buffer that is zero outside the magic and the entry field.
\<close>

theorem scenario2_entry_is_header_value_witness:
  "\<not> EFI_ERROR (load_status (load_kernel_to_1m (good_firmware scenario2_image) zero_memory 1)) \<and>
   fw_Read (good_firmware scenario2_image) = (EFI_SUCCESS, 8192, scenario2_image) \<and>
   unat (8192 :: UINTN) = length scenario2_image \<and>
   length scenario2_image = 8192 \<and>
   take 4 scenario2_image = [0x7f, 0x45, 0x4C, 0x46] \<and>
   take 8 (drop 24 scenario2_image) = [0x00, 0x10, 0, 0, 0, 0, 0, 0] \<and>
   load_entry_phys (load_kernel_to_1m (good_firmware scenario2_image) zero_memory 1) = Some 0x1000"
proof -
  have r: "fw_Read (good_firmware scenario2_image) = (EFI_SUCCESS, 8192, scenario2_image)"
    by (simp add: good_firmware_def length_scenario2_image)
  have l: "unat (8192 :: UINTN) = length scenario2_image"
    by (simp add: length_scenario2_image)
  have t: "take 4 scenario2_image = [0x7f, 0x45, 0x4C, 0x46]"
    and d: "take 8 (drop 24 scenario2_image) = [0x00, 0x10, 0, 0, 0, 0, 0, 0]"
    by (simp_all add: scenario2_image_def ELF_magic_def)
  show ?thesis
    using scenario2_entry_is_header_value
      [OF good_firmware_loads r l length_scenario2_image t d, of zero_memory 1]
      good_firmware_loads [of scenario2_image zero_memory 1] r l t d
    by (simp add: length_scenario2_image)
qed

subsection \<open>C4: a size probe that does not answer ``buffer too small''\<close>

text \<open>
  Claim C4 says that every answer of the first \<open>GetMemoryMap\<close> call other than
  \<open>EFI_BUFFER_TOO_SMALL\<close> is fatal. Line 38 returns the answer as it is, and line 198 tests it
  with \<open>EFI_ERROR\<close>: an answer that is not an error code, \<open>EFI_SUCCESS\<close> for one, makes
  \<open>get_and_copy_memory_map\<close> return success with none of its outputs written (against its own
  comment at line 21), and \<open>UefiMain\<close> goes on to build the handoff record from a null map and
  to call \<open>ExitBootServices\<close> with the key 0 and then the kernel.
\<close>

theorem probe_success_is_not_fatal:
  "fst (fw_GetMemoryMap_size probe_succeeds) = EFI_SUCCESS \<and>
   fst (fw_GetMemoryMap_size probe_succeeds) \<noteq> EFI_BUFFER_TOO_SMALL \<and>
   get_and_copy_memory_map probe_succeeds = (EFI_SUCCESS, None, [GetMemoryMap 0 NULL]) \<and>
   run_status (UefiMain probe_succeeds zero_memory 1) = EFI_SUCCESS \<and>
   events_after is_GetMemoryMap (run_trace (UefiMain probe_succeeds zero_memory 1)) =
     [AllocatePool 48, ExitBootServices 1 0, KernelCall 0x00100000 0x5000] \<and>
   run_boot_info (UefiMain probe_succeeds zero_memory 1) =
     Some (0x5000,
       \<lparr>memory_map = NULL, memory_map_size = 0, descriptor_size = 0,
        descriptor_version = 0, physical_memory_offset = 0xFFFF800000000000,
        kernel_entry_phys = 0x00100000\<rparr>)"
  by (simp add: probe_succeeds_def run_defs status_codes)

subsection \<open>C5: the page count\<close>

text \<open>
  Claim C5 as stated fails at two sizes. At size 0, which is divisible by the page size, the
  count is 1 and not \<open>0 div 0x1000 = 0\<close> (line 132 raises a count of 0 to 1). At size
  \<open>2 ^ 64 - 1\<close> the sum \<open>kernel_size + 0xFFF\<close> wraps around and the count is 1, not the size
  rounded up.
\<close>

theorem Pages_claim_fails:
  "unat (0 :: UINT64) mod 0x1000 = 0 \<and>
   unat (Pages 0) \<noteq> unat (0 :: UINT64) div 0x1000 \<and>
   unat (Pages 0xFFFFFFFFFFFFFFFF) \<noteq> (unat (0xFFFFFFFFFFFFFFFF :: UINT64) + 0xFFF) div 0x1000"
  by (simp add: Pages_def)

text \<open>
  Claim C5, amended: for every kernel file size of at most \<open>2 ^ 64 - 0x1000\<close> bytes, the
  page count is the size rounded up to the next page boundary divided by \<open>0x1000\<close>, and 1
  where that is 0; every size below one page, 0 included, gives exactly 1 page; and every
  size other than 0 that is divisible by the page size gives exactly \<open>size div 0x1000\<close> pages.
\<close>

theorem Pages_rounds_up:
  assumes "unat kernel_size \<le> 2 ^ 64 - 0x1000"
  shows "unat (Pages kernel_size) = max 1 ((unat kernel_size + 0xFFF) div 0x1000) \<and>
    (unat kernel_size < 0x1000 \<longrightarrow> Pages kernel_size = 1) \<and>
    (kernel_size \<noteq> 0 \<and> unat kernel_size mod 0x1000 = 0 \<longrightarrow>
       unat (Pages kernel_size) = unat kernel_size div 0x1000)"
proof (intro conjI impI)
  show p: "unat (Pages kernel_size) = max 1 ((unat kernel_size + 0xFFF) div 0x1000)"
    using assms by (rule Pages_unat)
  {
    assume "unat kernel_size < 0x1000"
    then have "(unat kernel_size + 0xFFF) div 0x1000 \<le> 1" by simp
    then have "unat (Pages kernel_size) = unat (1 :: UINTN)" using p by simp
    then show "Pages kernel_size = 1" by (simp only: word_unat_eq_iff)
  }
  {
    assume h: "kernel_size \<noteq> 0 \<and> unat kernel_size mod 0x1000 = 0"
    then have "0x1000 dvd unat kernel_size" by (simp add: dvd_eq_mod_eq_0)
    then obtain k where k: "unat kernel_size = 0x1000 * k" by (elim dvdE)
    have "unat kernel_size \<noteq> 0" using h by (simp add: unat_eq_0)
    then have "1 \<le> k" using k by (cases k) simp_all
    moreover have "(0x1000 * k + 0xFFF) div 0x1000 = k" by simp
    ultimately have "max 1 ((unat kernel_size + 0xFFF) div 0x1000) = unat kernel_size div 0x1000"
      using k by simp
    then show "unat (Pages kernel_size) = unat kernel_size div 0x1000" using p by simp
  }
qed

text \<open>
  C5 amended, at the sizes 100 (below a page), 8192 (two full pages), 0 and 4097.
\<close>

theorem Pages_rounds_up_witness:
  "unat (100 :: UINT64) \<le> 2 ^ 64 - 0x1000 \<and> unat (100 :: UINT64) < 0x1000 \<and>
   Pages 100 = 1 \<and>
   unat (8192 :: UINT64) \<le> 2 ^ 64 - 0x1000 \<and> (8192 :: UINT64) \<noteq> 0 \<and>
   unat (8192 :: UINT64) mod 0x1000 = 0 \<and>
   unat (Pages 8192) = unat (8192 :: UINT64) div 0x1000 \<and>
   unat (Pages 8192) = 2 \<and>
   unat (Pages 0) = 1 \<and> unat (Pages 4097) = 2"
  using Pages_rounds_up [of 100] Pages_rounds_up [of 8192]
    Pages_rounds_up [of 0] Pages_rounds_up [of 4097]
  by simp

subsection \<open>C6: the size requested for the second memory-map call\<close>

text \<open>
  Claim C6 as stated fails where \<open>S + 10 * D\<close> leaves the range of \<open>UINTN\<close>: line 41 adds in
  \<open>UINTN\<close>, so a probe that reports \<open>S = 2 ^ 64 - 1\<close> and \<open>D = 1\<close> is followed by a request
  of 9 bytes.
\<close>

theorem map_buffer_request_wraps:
  "fw_GetMemoryMap_size probe_reports_huge =
     (EFI_BUFFER_TOO_SMALL,
      \<lparr>reply_map_size = 0xFFFFFFFFFFFFFFFF, reply_map_key = 0,
       reply_descriptor_size = 1, reply_descriptor_version = 1\<rparr>) \<and>
   snd (snd (get_and_copy_memory_map probe_reports_huge)) =
     [GetMemoryMap 0 NULL, AllocatePool 9, GetMemoryMap 9 0x3000] \<and>
   \<not> unat (0xFFFFFFFFFFFFFFFF :: UINTN) + 10 * unat (1 :: UINTN) \<le> unat (9 :: UINTN)"
  by (simp add: probe_reports_huge_def run_defs status_codes)

text \<open>
  Claim C6, amended: for every size probe that answers \<open>EFI_BUFFER_TOO_SMALL\<close> and reports a
  size \<open>S\<close> and a stride \<open>D\<close> with \<open>S + 10 * D < 2 ^ 64\<close>, the size passed to \<open>AllocatePool\<close>,
  and to the second \<open>GetMemoryMap\<close> call when the allocation succeeds, is at least
  \<open>S + 10 * D\<close>: it is exactly that.
\<close>

theorem map_buffer_request_margin:
  assumes "fw_GetMemoryMap_size fw = (EFI_BUFFER_TOO_SMALL, r)"
    and "unat (reply_map_size r) + 10 * unat (reply_descriptor_size r) < 2 ^ 64"
  shows "\<exists>request.
    unat request = unat (reply_map_size r) + 10 * unat (reply_descriptor_size r) \<and>
    take 2 (snd (snd (get_and_copy_memory_map fw))) = [GetMemoryMap 0 NULL, AllocatePool request] \<and>
    (fw_AllocatePool_map fw \<noteq> NULL \<longrightarrow>
       take 3 (snd (snd (get_and_copy_memory_map fw))) =
         [GetMemoryMap 0 NULL, AllocatePool request, GetMemoryMap request (fw_AllocatePool_map fw)])"
proof -
  let ?S = "reply_map_size r" and ?D = "reply_descriptor_size r"
  have m: "unat (?D * 10) = unat ?D * 10"
    using assms(2) by (simp add: unat_mult_lem [THEN iffD1])
  have "unat (?S + ?D * 10) = unat ?S + unat (?D * 10)"
    using assms(2) m by (simp add: unat_add_lem [THEN iffD1])
  then have "unat (?S + ?D * 10) = unat ?S + 10 * unat ?D"
    using m by simp
  moreover have "take 2 (snd (snd (get_and_copy_memory_map fw))) =
      [GetMemoryMap 0 NULL, AllocatePool (?S + ?D * 10)]"
    using assms(1) by (simp add: get_and_copy_memory_map_def Let_def split: prod.split)
  moreover have "fw_AllocatePool_map fw \<noteq> NULL \<longrightarrow>
      take 3 (snd (snd (get_and_copy_memory_map fw))) =
        [GetMemoryMap 0 NULL, AllocatePool (?S + ?D * 10),
         GetMemoryMap (?S + ?D * 10) (fw_AllocatePool_map fw)]"
    using assms(1) by (simp add: get_and_copy_memory_map_def Let_def split: prod.split)
  ultimately show ?thesis by blast
qed

text \<open>
  C6 amended, at the scenario of the specification: a probe reporting 4096 bytes and a stride
  of 48 is followed by a request of 4576 bytes.
\<close>

theorem map_buffer_request_margin_witness:
  "fw_GetMemoryMap_size (good_firmware flat_image) =
     (EFI_BUFFER_TOO_SMALL,
      \<lparr>reply_map_size = 4096, reply_map_key = 0,
       reply_descriptor_size = 48, reply_descriptor_version = 1\<rparr>) \<and>
   unat (4096 :: UINTN) + 10 * unat (48 :: UINTN) < 2 ^ 64 \<and>
   fw_AllocatePool_map (good_firmware flat_image) \<noteq> NULL \<and>
   take 3 (snd (snd (get_and_copy_memory_map (good_firmware flat_image)))) =
     [GetMemoryMap 0 NULL, AllocatePool 4576, GetMemoryMap 4576 0x3000] \<and>
   unat (4576 :: UINTN) = 4096 + 10 * 48"
  using map_buffer_request_margin [of "good_firmware flat_image"
    "\<lparr>reply_map_size = 4096, reply_map_key = 0,
      reply_descriptor_size = 48, reply_descriptor_version = 1\<rparr>"]
  by (simp add: run_defs status_codes)

subsection \<open>C7: a short or failed read\<close>

text \<open>
  Claim C7: in every run that reaches the read, if the read returns an error or leaves in
  \<open>ReadSize\<close> a value other than the file's reported size (fewer bytes in particular), then
  \<open>load_kernel_to_1m\<close> and \<open>UefiMain\<close> return \<open>EFI_DEVICE_ERROR\<close>, \<open>out_entry_phys\<close> is not
  written, no handoff record is built, and all that follows the read is the diagnostic, the
  release of the file information, the close of the file and the caller's diagnostic: no
  entry resolution takes place.
\<close>

theorem short_read_is_device_error:
  assumes "list_ex is_ReadFile (run_trace (UefiMain fw m h))"
    and "EFI_ERROR (fst (fw_Read fw)) \<or> fst (snd (fw_Read fw)) \<noteq> snd (fw_GetInfo fw)"
  shows "run_status (UefiMain fw m h) = EFI_DEVICE_ERROR \<and>
    load_status (load_kernel_to_1m fw m h) = EFI_DEVICE_ERROR \<and>
    load_entry_phys (load_kernel_to_1m fw m h) = None \<and>
    run_boot_info (UefiMain fw m h) = None \<and>
    events_after is_ReadFile (run_trace (UefiMain fw m h)) =
      [Print ''KernelFile->Read failed or short read: %r (read %u, expected %llu)'',
       FreePool (fw_AllocatePool_FileInfo fw), CloseFile,
       Print ''Failed to load kernel: %r'']"
proof -
  have r: "list_ex is_ReadFile (load_trace (load_kernel_to_1m fw m h))"
    using assms(1) by (simp add: run_trace_ReadFile)
  with assms(2) load_read_failure [of fw m h]
  have l: "load_status (load_kernel_to_1m fw m h) = EFI_DEVICE_ERROR"
    "load_entry_phys (load_kernel_to_1m fw m h) = None"
    "events_after is_ReadFile (load_trace (load_kernel_to_1m fw m h)) =
      [Print ''KernelFile->Read failed or short read: %r (read %u, expected %llu)'',
       FreePool (fw_AllocatePool_FileInfo fw), CloseFile]"
    by simp_all
  have "EFI_ERROR (load_status (load_kernel_to_1m fw m h))"
    using l(1) by (simp add: EFI_ERROR_codes)
  from run_trace_load_failed [OF this] show ?thesis
    using l r by (simp add: events_after_append)
qed

text \<open>
  C7 at a read that returns one byte of a file of two.
\<close>

theorem short_read_is_device_error_witness:
  "list_ex is_ReadFile (run_trace (UefiMain short_read zero_memory 1)) \<and>
   fw_Read short_read = (EFI_SUCCESS, 1, [0xFA]) \<and>
   fw_GetInfo short_read = (EFI_SUCCESS, 2) \<and>
   run_status (UefiMain short_read zero_memory 1) = EFI_DEVICE_ERROR \<and>
   load_entry_phys (load_kernel_to_1m short_read zero_memory 1) = None \<and>
   events_after is_ReadFile (run_trace (UefiMain short_read zero_memory 1)) =
     [Print ''KernelFile->Read failed or short read: %r (read %u, expected %llu)'',
      FreePool 0x2000, CloseFile, Print ''Failed to load kernel: %r'']"
  using short_read_is_device_error [of short_read zero_memory 1]
  by (simp add: short_read_def run_defs status_codes)

subsection \<open>C8: the kernel pages are requested at 1 MiB exactly\<close>

text \<open>
  Claim C8: every \<open>AllocatePages\<close> call of a run asks, with the allocation type
  \<open>AllocateAddress\<close>, for the pages of the kernel file at the address \<open>0x00100000\<close>; and when
  that call fails, the run returns its status, builds no handoff record, and does nothing
  after it but print, free the file information, close the file and print: it asks for no
  pages elsewhere and reads nothing.
\<close>

theorem kernel_pages_at_fixed_address:
  "list_all
     (\<lambda>e. is_AllocatePages e \<longrightarrow>
        e = AllocatePages AllocateAddress EfiLoaderData (Pages (snd (fw_GetInfo fw))) 0x00100000)
     (run_trace (UefiMain fw m h)) \<and>
   (list_ex is_AllocatePages (run_trace (UefiMain fw m h)) \<and> EFI_ERROR (fw_AllocatePages fw) \<longrightarrow>
      run_status (UefiMain fw m h) = fw_AllocatePages fw \<and>
      run_boot_info (UefiMain fw m h) = None \<and>
      events_after is_AllocatePages (run_trace (UefiMain fw m h)) =
        [Print ''AllocatePages at 0x00100000 failed: %r'',
         FreePool (fw_AllocatePool_FileInfo fw), CloseFile,
         Print ''Failed to load kernel: %r''])"
proof (intro conjI impI)
  show "list_all
     (\<lambda>e. is_AllocatePages e \<longrightarrow>
        e = AllocatePages AllocateAddress EfiLoaderData (Pages (snd (fw_GetInfo fw))) 0x00100000)
     (run_trace (UefiMain fw m h))"
    using load_AllocatePages_events [of fw m h] by (simp only: run_trace_AllocatePages(2))
next
  assume a: "list_ex is_AllocatePages (run_trace (UefiMain fw m h)) \<and> EFI_ERROR (fw_AllocatePages fw)"
  then have r: "list_ex is_AllocatePages (load_trace (load_kernel_to_1m fw m h))"
    by (simp add: run_trace_AllocatePages(1))
  with a load_AllocatePages_failure [of fw m h]
  have l: "load_status (load_kernel_to_1m fw m h) = fw_AllocatePages fw"
    "events_after is_AllocatePages (load_trace (load_kernel_to_1m fw m h)) =
      [Print ''AllocatePages at 0x00100000 failed: %r'',
       FreePool (fw_AllocatePool_FileInfo fw), CloseFile]"
    by simp_all
  have f: "EFI_ERROR (load_status (load_kernel_to_1m fw m h))"
    using l(1) a by simp
  show "run_status (UefiMain fw m h) = fw_AllocatePages fw"
    using run_trace_load_failed [OF f] l(1) by simp
  show "run_boot_info (UefiMain fw m h) = None"
    using run_trace_load_failed [OF f] by simp
  show "events_after is_AllocatePages (run_trace (UefiMain fw m h)) =
        [Print ''AllocatePages at 0x00100000 failed: %r'',
         FreePool (fw_AllocatePool_FileInfo fw), CloseFile,
         Print ''Failed to load kernel: %r'']"
    using run_trace_load_failed [OF f] l(2) r by (simp add: events_after_append)
qed

text \<open>
  C8 at a firmware that answers the page request with \<open>EFI_OUT_OF_RESOURCES\<close>.
\<close>

theorem kernel_pages_at_fixed_address_witness:
  "list_ex is_AllocatePages (run_trace (UefiMain pages_unavailable zero_memory 1)) \<and>
   EFI_ERROR (fw_AllocatePages pages_unavailable) \<and>
   run_trace (UefiMain pages_unavailable zero_memory 1) =
     [HandleProtocol 1 gEfiLoadedImageProtocolGuid,
      HandleProtocol 2 gEfiSimpleFileSystemProtocolGuid,
      OpenVolume,
      OpenFile KernelPath EFI_FILE_MODE_READ 0,
      GetInfo gEfiFileInfoGuid 0 NULL,
      AllocatePool 104,
      GetInfo gEfiFileInfoGuid 104 0x2000,
      AllocatePages AllocateAddress EfiLoaderData 1 0x00100000,
      Print ''AllocatePages at 0x00100000 failed: %r'',
      FreePool 0x2000,
      CloseFile,
      Print ''Failed to load kernel: %r''] \<and>
   run_status (UefiMain pages_unavailable zero_memory 1) = EFI_OUT_OF_RESOURCES"
  using kernel_pages_at_fixed_address [of pages_unavailable zero_memory 1]
  by (simp add: pages_unavailable_def run_defs status_codes)

subsection \<open>C9: after ExitBootServices, only the call of the kernel\<close>

text \<open>
  Claim C9: in every run that reaches \<open>ExitBootServices\<close> and in which that call succeeds, what
  follows it in the trace is the one control transfer and nothing else; the address called is
  the entry address \<open>load_kernel_to_1m\<close> resolved, and the one argument is the non-null pointer
  to the handoff record, which holds the outputs of the memory-map snapshot, the offset
  constant and that same entry address.
\<close>

theorem only_the_kernel_call_follows_exit:
  assumes "list_ex is_ExitBootServices (run_trace (UefiMain fw m h))"
    and "\<not> EFI_ERROR (fw_ExitBootServices fw)"
  shows "\<exists>entry.
    load_entry_phys (load_kernel_to_1m fw m h) = Some entry \<and>
    events_after is_ExitBootServices (run_trace (UefiMain fw m h)) =
      [KernelCall entry (fw_AllocatePool_BOOT_INFO fw)] \<and>
    fw_AllocatePool_BOOT_INFO fw \<noteq> NULL \<and>
    run_boot_info (UefiMain fw m h) =
      Some (fw_AllocatePool_BOOT_INFO fw,
        \<lparr>memory_map = out_map (snapshot fw),
         memory_map_size = out_map_size (snapshot fw),
         descriptor_size = out_descriptor_size (snapshot fw),
         descriptor_version = out_descriptor_version (snapshot fw),
         physical_memory_offset = 0xFFFF800000000000,
         kernel_entry_phys = entry\<rparr>)"
proof -
  note e = run_reaches_exit [OF assms(1)]
  obtain entry where entry: "load_entry_phys (load_kernel_to_1m fw m h) = Some entry"
    using load_kernel_to_1m_success(1) [OF e(1)] by blast
  have "events_after is_ExitBootServices (run_trace (UefiMain fw m h)) =
      [KernelCall entry (fw_AllocatePool_BOOT_INFO fw)]"
    using e(4) assms(2) entry load_trace_no_ExitBootServices [of fw m h]
      map_trace_no_ExitBootServices [of fw]
    by (simp add: events_after_append)
  then show ?thesis
    using entry e(3) e(5) by (simp add: PHYS_OFFSET_def)
qed

text \<open>
  C9 at the firmware on which every call succeeds, for the 64-byte ELF header.
\<close>

theorem only_the_kernel_call_follows_exit_witness:
  "list_ex is_ExitBootServices (run_trace (UefiMain (good_firmware elf_image) zero_memory 1)) \<and>
   \<not> EFI_ERROR (fw_ExitBootServices (good_firmware elf_image)) \<and>
   load_entry_phys (load_kernel_to_1m (good_firmware elf_image) zero_memory 1) = Some 0x00101000 \<and>
   events_after is_ExitBootServices (run_trace (UefiMain (good_firmware elf_image) zero_memory 1)) =
     [KernelCall 0x00101000 0x5000] \<and>
   run_boot_info (UefiMain (good_firmware elf_image) zero_memory 1) =
     Some (0x5000,
       \<lparr>memory_map = 0x3000, memory_map_size = 4320, descriptor_size = 48,
        descriptor_version = 1, physical_memory_offset = 0xFFFF800000000000,
        kernel_entry_phys = 0x00101000\<rparr>)"
proof -
  have r: "fw_Read (good_firmware elf_image) = (EFI_SUCCESS, 64, elf_image)"
    by (simp add: good_firmware_def length_elf_image)
  have "load_entry_phys (load_kernel_to_1m (good_firmware elf_image) zero_memory 1) = Some 0x00101000"
    using load_entry_of_buffer [OF good_firmware_loads r, of zero_memory 1]
    by (simp add: length_elf_image elf_image_def ELF_magic_def)
  moreover have "list_ex is_ExitBootServices (run_trace (UefiMain (good_firmware elf_image) zero_memory 1))"
    using good_firmware_loads [of elf_image zero_memory 1]
    by (simp add: UefiMain_def get_and_copy_memory_map_def Let_def)
       (simp add: good_firmware_def status_codes)
  moreover have "snapshot (good_firmware elf_image) =
      \<lparr>out_map = 0x3000, out_map_size = 4320, out_descriptor_size = 48,
       out_descriptor_version = 1, out_map_key = 0x2A\<rparr>"
    by (simp add: snapshot_def get_and_copy_memory_map_def good_firmware_def Let_def status_codes)
  ultimately show ?thesis
    using only_the_kernel_call_follows_exit [of "good_firmware elf_image" zero_memory 1]
    by (auto simp add: good_firmware_def status_codes)
qed

subsection \<open>C10: a failed second memory-map call writes no output\<close>

text \<open>
  Claim C10: when the size probe answers \<open>EFI_BUFFER_TOO_SMALL\<close>, the buffer allocation
  succeeds and the second \<open>GetMemoryMap\<close> call fails, \<open>get_and_copy_memory_map\<close> frees the
  buffer as its last call and returns that error with none of its five outputs written; and
  whenever the outputs are written, the function returns \<open>EFI_SUCCESS\<close>.
\<close>

theorem map_fetch_failure_writes_nothing:
  "(fst (fw_GetMemoryMap_size fw) = EFI_BUFFER_TOO_SMALL \<and>
    fw_AllocatePool_map fw \<noteq> NULL \<and>
    EFI_ERROR (fst (fw_GetMemoryMap fw)) \<longrightarrow>
      get_and_copy_memory_map fw =
        (fst (fw_GetMemoryMap fw), None,
         [GetMemoryMap 0 NULL,
          AllocatePool (reply_map_size (snd (fw_GetMemoryMap_size fw))
                        + reply_descriptor_size (snd (fw_GetMemoryMap_size fw)) * 10),
          GetMemoryMap (reply_map_size (snd (fw_GetMemoryMap_size fw))
                        + reply_descriptor_size (snd (fw_GetMemoryMap_size fw)) * 10)
            (fw_AllocatePool_map fw),
          FreePool (fw_AllocatePool_map fw)])) \<and>
   (fst (snd (get_and_copy_memory_map fw)) \<noteq> None \<longrightarrow>
      fst (get_and_copy_memory_map fw) = EFI_SUCCESS)"
  by (simp add: get_and_copy_memory_map_def Let_def split: prod.split)

text \<open>
  C10 at a firmware whose second memory-map call answers \<open>EFI_BUFFER_TOO_SMALL\<close> again, and at
  the firmware on which it succeeds.
\<close>

theorem map_fetch_failure_writes_nothing_witness:
  "fst (fw_GetMemoryMap_size map_fetch_fails) = EFI_BUFFER_TOO_SMALL \<and>
   fw_AllocatePool_map map_fetch_fails \<noteq> NULL \<and>
   EFI_ERROR (fst (fw_GetMemoryMap map_fetch_fails)) \<and>
   get_and_copy_memory_map map_fetch_fails =
     (EFI_BUFFER_TOO_SMALL, None,
      [GetMemoryMap 0 NULL, AllocatePool 4576, GetMemoryMap 4576 0x3000, FreePool 0x3000]) \<and>
   fst (snd (get_and_copy_memory_map (good_firmware flat_image))) \<noteq> None \<and>
   get_and_copy_memory_map (good_firmware flat_image) =
     (EFI_SUCCESS,
      Some \<lparr>out_map = 0x3000, out_map_size = 4320, out_descriptor_size = 48,
            out_descriptor_version = 1, out_map_key = 0x2A\<rparr>,
      [GetMemoryMap 0 NULL, AllocatePool 4576, GetMemoryMap 4576 0x3000])"
  using map_fetch_failure_writes_nothing [of map_fetch_fails]
    map_fetch_failure_writes_nothing [of "good_firmware flat_image"]
  by (simp add: map_fetch_fails_def run_defs status_codes)

end
